theory Spec2Isabelle
  imports Complex_Main
begin

section \<open>Python values, exceptions and the outside world\<close>

text \<open>
  Values that travel through the dictionaries of the program (rows of the remote tables,
  log entries, API records). Strings are byte lists (the UTF-8 encoding of the Python
  string); timestamps and float values are modelled as real numbers.
\<close>

datatype pyval = PNone | PBool bool | PInt int | PFloat real | PStr string

type_synonym row = "string \<rightharpoonup> pyval"

text \<open>
  Two classes of exception matter to the handlers of the program: \<open>KeyboardInterrupt\<close>,
  which \<^verbatim>\<open>except Exception\<close> does not catch, and everything derived from
  \<open>Exception\<close>, carried with the text \<^verbatim>\<open>str(e)\<close>.
\<close>

datatype exc = KeyboardInterrupt | Exception string

text \<open>A request sent through the Supabase client, up to \<^verbatim>\<open>.execute()\<close>.\<close>

datatype request =
    Select string string string   \<comment> \<open>\<^verbatim>\<open>table(t).select("*").eq(col, v)\<close>\<close>
  | Insert string row             \<comment> \<open>\<^verbatim>\<open>table(t).insert(data)\<close>\<close>
  | Update string row string string \<comment> \<open>\<^verbatim>\<open>table(t).update(data).eq(col, v)\<close>\<close>

text \<open>
  The client: \<^verbatim>\<open>.execute()\<close> either raises or returns a response whose \<^verbatim>\<open>data\<close>
  is a list of rows.
\<close>

type_synonym remote = "request \<Rightarrow> exc + row list"

text \<open>Effects visible outside the process, in the order they are issued.\<close>

datatype action =
    Remote request
  | Print string
  | Sleep real
  | PrintTraceback
  | Cleanup

text \<open>
  What the interpreter and the machine provide: the two module-level flags of
  \<^verbatim>\<open>rfid_verification.py\<close>, what a write of a line to standard output does
  (\<open>None\<close>: it succeeds), and the conversions between floats and strings of the
  builtins \<^verbatim>\<open>str\<close> and \<^verbatim>\<open>float\<close>.
\<close>

record world =
  RASPBERRY_PI :: bool
  reader :: bool
  stdout :: "string \<Rightarrow> exc option"
  str_of_float :: "real \<Rightarrow> string"
  float_of_str :: "string \<Rightarrow> real option"

subsection \<open>Builtins\<close>

definition py_truthy :: "pyval \<Rightarrow> bool" where
  "py_truthy v =
     (case v of PNone \<Rightarrow> False | PBool b \<Rightarrow> b | PInt i \<Rightarrow> i \<noteq> 0
      | PFloat r \<Rightarrow> r \<noteq> 0 | PStr s \<Rightarrow> s \<noteq> [])"

definition digit_char :: "nat \<Rightarrow> char" where
  "digit_char d = char_of (48 + d)"

fun str_of_nat :: "nat \<Rightarrow> string" where
  "str_of_nat n =
     (if n < 10 then [digit_char n] else str_of_nat (n div 10) @ [digit_char (n mod 10)])"

declare str_of_nat.simps [simp del]

definition str_of_int :: "int \<Rightarrow> string" where
  "str_of_int i = (if i < 0 then CHR ''-'' # str_of_nat (nat (- i)) else str_of_nat (nat i))"

definition py_str :: "world \<Rightarrow> pyval \<Rightarrow> string" where
  "py_str w v =
     (case v of PNone \<Rightarrow> ''None''
      | PBool b \<Rightarrow> (if b then ''True'' else ''False'')
      | PInt i \<Rightarrow> str_of_int i
      | PFloat r \<Rightarrow> str_of_float w r
      | PStr s \<Rightarrow> s)"

text \<open>
  \<^verbatim>\<open>float(v)\<close>, on finite values: an integer is taken to the float of the same value
  (the rounding of integers beyond 53 bits is left out), a string is parsed by the
  interpreter, \<^verbatim>\<open>None\<close> raises \<^verbatim>\<open>TypeError\<close>.
\<close>

definition py_float :: "world \<Rightarrow> pyval \<Rightarrow> exc + real" where
  "py_float w v =
     (case v of PNone \<Rightarrow> Inl (Exception ''TypeError'')
      | PBool b \<Rightarrow> Inr (if b then 1 else 0)
      | PInt i \<Rightarrow> Inr (of_int i)
      | PFloat r \<Rightarrow> Inr r
      | PStr s \<Rightarrow> (case float_of_str w s of None \<Rightarrow> Inl (Exception ''ValueError'')
                   | Some r \<Rightarrow> Inr r))"

text \<open>
  The characters that \<^verbatim>\<open>str.strip()\<close> removes, those for which \<^verbatim>\<open>str.isspace\<close> holds,
  each as its UTF-8 encoding: U+0009 to U+000D, U+001C to U+0020, U+0085, U+00A0, U+1680,
  U+2000 to U+200A, U+2028, U+2029, U+202F, U+205F and U+3000.
\<close>

definition whitespace :: "string list" where
  "whitespace =
     [[CHR 0x09], [CHR 0x0A], [CHR 0x0B], [CHR 0x0C], [CHR 0x0D],
      [CHR 0x1C], [CHR 0x1D], [CHR 0x1E], [CHR 0x1F], [CHR 0x20],
      [CHR 0xC2, CHR 0x85], [CHR 0xC2, CHR 0xA0],
      [CHR 0xE1, CHR 0x9A, CHR 0x80],
      [CHR 0xE2, CHR 0x80, CHR 0x80], [CHR 0xE2, CHR 0x80, CHR 0x81],
      [CHR 0xE2, CHR 0x80, CHR 0x82], [CHR 0xE2, CHR 0x80, CHR 0x83],
      [CHR 0xE2, CHR 0x80, CHR 0x84], [CHR 0xE2, CHR 0x80, CHR 0x85],
      [CHR 0xE2, CHR 0x80, CHR 0x86], [CHR 0xE2, CHR 0x80, CHR 0x87],
      [CHR 0xE2, CHR 0x80, CHR 0x88], [CHR 0xE2, CHR 0x80, CHR 0x89],
      [CHR 0xE2, CHR 0x80, CHR 0x8A],
      [CHR 0xE2, CHR 0x80, CHR 0xA8], [CHR 0xE2, CHR 0x80, CHR 0xA9],
      [CHR 0xE2, CHR 0x80, CHR 0xAF], [CHR 0xE2, CHR 0x81, CHR 0x9F],
      [CHR 0xE3, CHR 0x80, CHR 0x80]]"

text \<open>
  Removing, from the front of a string, every character whose encoding is in \<open>ws\<close>. An
  encoding is a whole character of a well-formed string wherever it starts one, and,
  read backwards, wherever it ends one.
\<close>

function drop_leading :: "string list \<Rightarrow> string \<Rightarrow> string" where
  "drop_leading ws s =
     (case find (\<lambda>e. e \<noteq> [] \<and> take (length e) s = e) ws of
        None \<Rightarrow> s
      | Some e \<Rightarrow> drop_leading ws (drop (length e) s))"
  by pat_completeness auto
termination
proof (relation "measure (\<lambda>(ws, s). length s)")
  show "wf (measure (\<lambda>(ws, s). length s))" by simp
next
  fix ws :: "string list" and s e :: string
  assume "find (\<lambda>e. e \<noteq> [] \<and> take (length e) s = e) ws = Some e"
  then have e: "e \<noteq> []" and t: "take (length e) s = e"
    by (auto simp: find_Some_iff)
  from e t have "s \<noteq> []" by auto
  with e show "((ws, drop (length e) s), (ws, s)) \<in> measure (\<lambda>(ws, s). length s)"
    by simp
qed

declare drop_leading.simps [simp del]

definition lstrip :: "string \<Rightarrow> string" where
  "lstrip s = drop_leading whitespace s"

definition rstrip :: "string \<Rightarrow> string" where
  "rstrip s = rev (drop_leading (map rev whitespace) (rev s))"

text \<open>\<^verbatim>\<open>s.strip()\<close>\<close>

definition strip :: "string \<Rightarrow> string" where
  "strip s = rstrip (lstrip s)"

text \<open>\<^verbatim>\<open>d.get(k, default)\<close>\<close>

definition dict_get :: "row \<Rightarrow> string \<Rightarrow> pyval \<Rightarrow> pyval" where
  "dict_get d k dflt = (case d k of None \<Rightarrow> dflt | Some v \<Rightarrow> v)"

section \<open>\<^verbatim>\<open>scripts/rfid_verification.py\<close>\<close>

definition USERS_TABLE :: string where
  "USERS_TABLE = ''users''"

definition LOGS_TABLE :: string where
  "LOGS_TABLE = ''authentication_logs''"

definition check_mark :: string where
  "check_mark = [CHR 0xE2, CHR 0x9C, CHR 0x93]"

definition cross_mark :: string where
  "cross_mark = [CHR 0xE2, CHR 0x9C, CHR 0x97]"

text \<open>The dictionary \<^verbatim>\<open>log_data\<close> that \<^verbatim>\<open>log_authentication_event\<close> builds.\<close>

definition log_data :: "string \<Rightarrow> string \<Rightarrow> bool \<Rightarrow> pyval \<Rightarrow> pyval \<Rightarrow> pyval \<Rightarrow> row" where
  "log_data eid event_type success user_id user_name message =
     (let d0 = [''eid'' \<mapsto> PStr eid, ''event_type'' \<mapsto> PStr event_type,
                ''success'' \<mapsto> PBool success, ''message'' \<mapsto> message];
          d1 = (if py_truthy user_id then d0(''user_id'' \<mapsto> user_id) else d0);
          d2 = (if py_truthy user_name then d1(''user_name'' \<mapsto> user_name) else d1)
      in d2)"

text \<open>
  \<^verbatim>\<open>log_authentication_event\<close>: one insert; \<^verbatim>\<open>except Exception: return False\<close>.
  The defaults of \<^verbatim>\<open>user_id\<close>, \<^verbatim>\<open>user_name\<close> and \<^verbatim>\<open>message\<close> are \<open>PNone\<close>.
\<close>

definition log_authentication_event ::
  "remote \<Rightarrow> string \<Rightarrow> string \<Rightarrow> bool \<Rightarrow> pyval \<Rightarrow> pyval \<Rightarrow> pyval \<Rightarrow> action list \<times> (exc + bool)" where
  "log_authentication_event supabase eid event_type success user_id user_name message =
     (let q = Insert LOGS_TABLE (log_data eid event_type success user_id user_name message)
      in ([Remote q],
          case supabase q of
            Inr data \<Rightarrow> Inr (data \<noteq> [])
          | Inl (Exception m) \<Rightarrow> Inr False
          | Inl KeyboardInterrupt \<Rightarrow> Inl KeyboardInterrupt))"

text \<open>
  A call of \<^verbatim>\<open>log_authentication_event\<close> as a statement: the returned flag is dropped,
  only a raised exception is passed on.
\<close>

definition call_log ::
  "remote \<Rightarrow> string \<Rightarrow> string \<Rightarrow> bool \<Rightarrow> pyval \<Rightarrow> pyval \<Rightarrow> pyval \<Rightarrow> action list \<times> exc option" where
  "call_log supabase eid event_type success user_id user_name message =
     (case log_authentication_event supabase eid event_type success user_id user_name message of
        (tr, Inl e) \<Rightarrow> (tr, Some e)
      | (tr, Inr _) \<Rightarrow> (tr, None))"

text \<open>\<^verbatim>\<open>user['id']\<close>: a missing key raises \<^verbatim>\<open>KeyError\<close>.\<close>

definition subscript :: "row \<Rightarrow> string \<Rightarrow> exc + pyval" where
  "subscript d k =
     (case d k of None \<Rightarrow> Inl (Exception ([CHR 0x27] @ k @ [CHR 0x27])) | Some v \<Rightarrow> Inr v)"

text \<open>The body of the \<^verbatim>\<open>try\<close> block of \<^verbatim>\<open>scan_and_log\<close>.\<close>

definition scan_and_log_body :: "world \<Rightarrow> remote \<Rightarrow> string \<Rightarrow> action list \<times> exc option" where
  "scan_and_log_body w supabase eid =
     (let q = Select USERS_TABLE ''eid'' eid in
      case supabase q of
        Inl e \<Rightarrow> ([Remote q], Some e)
      | Inr [] \<Rightarrow>
          (let line = cross_mark @ '' No user found with EID: '' @ eid in
           case stdout w line of
             Some e \<Rightarrow> ([Remote q, Print line], Some e)
           | None \<Rightarrow>
               (let (tr, r) = call_log supabase eid ''failed'' False PNone PNone
                                (PStr (''No user found with EID: '' @ eid))
                in ([Remote q, Print line] @ tr, r)))
      | Inr (user # _) \<Rightarrow>
          (case subscript user ''id'' of
             Inl e \<Rightarrow> ([Remote q], Some e)
           | Inr user_id \<Rightarrow>
               (case subscript user ''name'' of
                  Inl e \<Rightarrow> ([Remote q], Some e)
                | Inr user_name \<Rightarrow>
                    (let line = check_mark @ '' '' @ py_str w user_name @ '' scanned (EID: ''
                                  @ eid @ '')'' in
                     case stdout w line of
                       Some e \<Rightarrow> ([Remote q, Print line], Some e)
                     | None \<Rightarrow>
                         (let (tr, r) = call_log supabase eid ''login'' True user_id user_name
                                          (PStr (''User '' @ py_str w user_name
                                                 @ '' scanned successfully''))
                          in ([Remote q, Print line] @ tr, r))))))"

text \<open>
  \<^verbatim>\<open>scan_and_log\<close>: the handler \<^verbatim>\<open>except Exception as e\<close> prints one line; that
  print is outside any \<^verbatim>\<open>try\<close>, so what it raises leaves the function.
\<close>

definition scan_and_log :: "world \<Rightarrow> remote \<Rightarrow> string \<Rightarrow> action list \<times> exc option" where
  "scan_and_log w supabase eid =
     (case scan_and_log_body w supabase eid of
        (tr, Some (Exception m)) \<Rightarrow>
          (let line = cross_mark @ '' Failed to scan: '' @ m
           in (tr @ [Print line], stdout w line))
      | (tr, r) \<Rightarrow> (tr, r))"

text \<open>
  \<^verbatim>\<open>read_rfid_card\<close>. The argument is what \<^verbatim>\<open>reader.read()\<close> does when it is called:
  it raises, or returns the card's number and text.
\<close>

definition read_rfid_card :: "world \<Rightarrow> exc + (int \<times> string) \<Rightarrow> exc + (string \<times> string) option" where
  "read_rfid_card w rd =
     (if \<not> RASPBERRY_PI w \<or> \<not> reader w then Inr None
      else case rd of
             Inr (id', text) \<Rightarrow> Inr (Some (str_of_int id', if text \<noteq> [] then strip text else []))
           | Inl (Exception m) \<Rightarrow> Inr None
           | Inl KeyboardInterrupt \<Rightarrow> Inl KeyboardInterrupt)"

text \<open>The two variables \<^verbatim>\<open>main\<close> carries from one iteration to the next.\<close>

record scan_state =
  last_scanned_eid :: "string option"
  last_scan_time :: real

definition scan_cooldown :: real where
  "scan_cooldown = 2"

definition initial_state :: scan_state where
  "initial_state = \<lparr>last_scanned_eid = None, last_scan_time = 0\<rparr>"

text \<open>What one pass through the loop body finds outside the process.\<close>

record tick =
  reader_read :: "exc + (int \<times> string)"
  time_now :: real
  supabase :: remote

text \<open>
  Each effect of the loop is recorded with the values that \<^verbatim>\<open>last_scanned_eid\<close>,
  \<^verbatim>\<open>last_scan_time\<close> and \<^verbatim>\<open>current_time\<close> hold at the moment it is issued.
\<close>

type_synonym stamped = "(scan_state \<times> real) \<times> action"

text \<open>
  One pass through the body of \<^verbatim>\<open>while True\<close>. \<open>Inr\<close> is the state the next pass
  starts from; \<open>Inl\<close> is an exception that leaves the body.
\<close>

definition main_iteration :: "world \<Rightarrow> tick \<Rightarrow> scan_state \<Rightarrow> stamped list \<times> (exc + scan_state)" where
  "main_iteration w t st =
     (case read_rfid_card w (reader_read t) of
        Inl e \<Rightarrow> ([], Inl e)
      | Inr None \<Rightarrow> ([((st, time_now t), Sleep 0.1)], Inr st)
      | Inr (Some (card_id, card_text)) \<Rightarrow>
          (let current_time = time_now t; eid = strip card_id in
           if Some eid = last_scanned_eid st \<and> current_time - last_scan_time st < scan_cooldown
           then ([((st, current_time), Sleep 0.1)], Inr st)
           else
             (case scan_and_log w (supabase t) eid of
                (tr, Some e) \<Rightarrow> (map (Pair (st, current_time)) tr, Inl e)
              | (tr, None) \<Rightarrow>
                  (let st' = \<lparr>last_scanned_eid = Some eid, last_scan_time = current_time\<rparr>
                   in (map (Pair (st, current_time)) tr @ [((st', current_time), Sleep 0.5)],
                       Inr st')))))"

text \<open>
  The loop over the passes that happen. When the list is used up the loop is still
  running (\<open>Inr\<close>, with the state it holds); an exception ends it at once.
\<close>

fun main_loop :: "world \<Rightarrow> tick list \<Rightarrow> scan_state \<Rightarrow> stamped list \<times> (exc + scan_state)" where
  "main_loop w [] st = ([], Inr st)"
| "main_loop w (t # ts) st =
     (case main_iteration w t st of
        (tr, Inl e) \<Rightarrow> (tr, Inl e)
      | (tr, Inr st') \<Rightarrow> (case main_loop w ts st' of (tr', r) \<Rightarrow> (tr @ tr', r)))"

text \<open>The \<^verbatim>\<open>finally\<close> block of \<^verbatim>\<open>main\<close>.\<close>

definition main_finally :: "world \<Rightarrow> action list" where
  "main_finally w = (if RASPBERRY_PI w then [Cleanup] else [])"

text \<open>How a run of \<^verbatim>\<open>main\<close> stands after the given passes.\<close>

datatype outcome = Running scan_state | Returned | Raised exc

text \<open>
  \<^verbatim>\<open>main\<close>: two header lines, then the loop inside \<^verbatim>\<open>try\<close>, with the handlers for
  \<^verbatim>\<open>KeyboardInterrupt\<close> (one line) and \<^verbatim>\<open>Exception\<close> (one line, then the traceback)
  and the \<^verbatim>\<open>finally\<close> block around the whole loop. The four lines \<^verbatim>\<open>main\<close> prints
  come first.
\<close>

definition header_line1 :: string where
  "header_line1 = ''RFID Scanning System - Running...''"

definition header_line2 :: string where
  "header_line2 = ''Press Ctrl+C to exit'' @ [CHR 0x0A]"

definition shutdown_line :: string where
  "shutdown_line = [CHR 0x0A] @ ''Shutting down...''"

definition error_line :: "string \<Rightarrow> string" where
  "error_line m = [CHR 0x0A] @ cross_mark @ '' Error: '' @ m"

definition main :: "world \<Rightarrow> tick list \<Rightarrow> action list \<times> outcome" where
  "main w ticks =
     (case stdout w header_line1 of
        Some e \<Rightarrow> ([Print header_line1], Raised e)
      | None \<Rightarrow>
     (case stdout w header_line2 of
        Some e \<Rightarrow> ([Print header_line1, Print header_line2], Raised e)
      | None \<Rightarrow>
     (case main_loop w ticks initial_state of
        (tr, Inr st) \<Rightarrow> ([Print header_line1, Print header_line2] @ map snd tr, Running st)
      | (tr, Inl KeyboardInterrupt) \<Rightarrow>
          ([Print header_line1, Print header_line2] @ map snd tr @ [Print shutdown_line]
             @ main_finally w,
           case stdout w shutdown_line of None \<Rightarrow> Returned | Some e \<Rightarrow> Raised e)
      | (tr, Inl (Exception m)) \<Rightarrow>
          (case stdout w (error_line m) of
             Some e \<Rightarrow> ([Print header_line1, Print header_line2] @ map snd tr
                          @ [Print (error_line m)] @ main_finally w,
                        Raised e)
           | None \<Rightarrow> ([Print header_line1, Print header_line2] @ map snd tr
                        @ [Print (error_line m), PrintTraceback] @ main_finally w,
                      Returned)))))"

section \<open>\<^verbatim>\<open>backend/supabase_db.py\<close>\<close>


text \<open>
  \<^verbatim>\<open>update_user_balance\<close> and \<^verbatim>\<open>update_user_balance_by_id\<close> have the same body
  up to the filter (column and key) and the text of the error line.
\<close>

definition update_balance_where ::
  "world \<Rightarrow> remote option \<Rightarrow> string \<Rightarrow> string \<Rightarrow> string \<Rightarrow> pyval \<Rightarrow> action list \<times> (exc + bool)" where
  "update_balance_where w client col key err new_balance =
     (case client of
        None \<Rightarrow> ([], Inr False)
      | Some c \<Rightarrow>
          (case py_float w new_balance of
             Inl KeyboardInterrupt \<Rightarrow> ([], Inl KeyboardInterrupt)
           | Inl (Exception m) \<Rightarrow>
               (let line = err @ m
                in ([Print line], case stdout w line of None \<Rightarrow> Inr False | Some e \<Rightarrow> Inl e))
           | Inr f \<Rightarrow>
               (let new_balance' = max 0 f;
                    q = Update USERS_TABLE [''current_balance'' \<mapsto> PFloat new_balance'] col key
                in case c q of
                     Inr data \<Rightarrow> ([Remote q], Inr (data \<noteq> []))
                   | Inl KeyboardInterrupt \<Rightarrow> ([Remote q], Inl KeyboardInterrupt)
                   | Inl (Exception m) \<Rightarrow>
                       (let line = err @ m
                        in ([Remote q, Print line],
                            case stdout w line of None \<Rightarrow> Inr False | Some e \<Rightarrow> Inl e)))))"

definition update_user_balance :: "world \<Rightarrow> remote option \<Rightarrow> pyval \<Rightarrow> pyval \<Rightarrow> action list \<times> (exc + bool)" where
  "update_user_balance w client eid new_balance =
     update_balance_where w client ''eid'' (strip (py_str w eid))
       ''[ERROR] Failed to update user balance: '' new_balance"

definition update_user_balance_by_id :: "world \<Rightarrow> remote option \<Rightarrow> pyval \<Rightarrow> pyval \<Rightarrow> action list \<times> (exc + bool)" where
  "update_user_balance_by_id w client user_id new_balance =
     update_balance_where w client ''id'' (py_str w user_id)
       ''[ERROR] Failed to update user balance by ID: '' new_balance"

text \<open>
  The two format conversions. Only \<^verbatim>\<open>float(...)\<close> can raise; the other entries of
  the dictionary literal are lookups with a default.
\<close>

definition convert_to_api_format :: "world \<Rightarrow> row \<Rightarrow> exc + row" where
  "convert_to_api_format w user =
     (case py_float w (dict_get user ''current_balance'' (PFloat 0)) of
        Inl e \<Rightarrow> Inl e
      | Inr b \<Rightarrow>
          Inr [''id'' \<mapsto> PStr (py_str w (dict_get user ''id'' (PStr []))),
               ''name'' \<mapsto> dict_get user ''name'' (PStr []),
               ''rfidCardId'' \<mapsto> PStr (py_str w (dict_get user ''eid'' (PStr []))),
               ''balance'' \<mapsto> PFloat b,
               ''phoneNumber'' \<mapsto> dict_get user ''contact_number'' (PStr []),
               ''createdAt'' \<mapsto> dict_get user ''created_at'' (PStr [])])"

definition convert_from_api_format :: "world \<Rightarrow> row \<Rightarrow> exc + row" where
  "convert_from_api_format w user =
     (case py_float w (dict_get user ''balance'' (PFloat 0)) of
        Inl e \<Rightarrow> Inl e
      | Inr b \<Rightarrow>
          Inr [''eid'' \<mapsto> PStr (py_str w (dict_get user ''rfidCardId'' (PStr []))),
               ''name'' \<mapsto> dict_get user ''name'' (PStr []),
               ''contact_number'' \<mapsto> dict_get user ''phoneNumber'' (PStr []),
               ''current_balance'' \<mapsto> PFloat b,
               ''state'' \<mapsto> dict_get user ''state'' (PBool True)])"

text \<open>
  Modelled from the spec: the remote directory itself, which is not part of the
  repository. A query \<^verbatim>\<open>eq(col, v)\<close> returns the stored rows whose field \<open>col\<close> is
  exactly the string \<open>v\<close>, in stored order (sections 4.2 and 6 of the specification).
\<close>

definition directory :: "row list \<Rightarrow> remote" where
  "directory rows q =
     (case q of
        Select t col v \<Rightarrow> Inr (filter (\<lambda>r. r col = Some (PStr v)) rows)
      | _ \<Rightarrow> Inr [])"

section \<open>Observations on traces\<close>

text \<open>The rows sent to the log table, in order: the events a trace appends.\<close>

fun event_of :: "action \<Rightarrow> row option" where
  "event_of (Remote (Insert t d)) = Some d"
| "event_of _ = None"

fun events :: "action list \<Rightarrow> row list" where
  "events [] = []"
| "events (a # tr) = (case event_of a of None \<Rightarrow> events tr | Some d \<Rightarrow> d # events tr)"

fun is_remote :: "action \<Rightarrow> bool" where
  "is_remote (Remote q) = True"
| "is_remote _ = False"

text \<open>The balance an update request writes.\<close>

fun written_balance :: "action \<Rightarrow> pyval option" where
  "written_balance (Remote (Update t d col key)) = d ''current_balance''"
| "written_balance _ = None"

text \<open>The lines \<^verbatim>\<open>scan_and_log\<close> prints and the two events it builds.\<close>

definition not_found_line :: "string \<Rightarrow> string" where
  "not_found_line eid = cross_mark @ '' No user found with EID: '' @ eid"

definition scanned_line :: "world \<Rightarrow> pyval \<Rightarrow> string \<Rightarrow> string" where
  "scanned_line w user_name eid =
     check_mark @ '' '' @ py_str w user_name @ '' scanned (EID: '' @ eid @ '')''"

definition failed_line :: "string \<Rightarrow> string" where
  "failed_line m = cross_mark @ '' Failed to scan: '' @ m"

definition failed_event :: "string \<Rightarrow> row" where
  "failed_event eid =
     log_data eid ''failed'' False PNone PNone (PStr (''No user found with EID: '' @ eid))"

definition login_event :: "world \<Rightarrow> string \<Rightarrow> pyval \<Rightarrow> pyval \<Rightarrow> row" where
  "login_event w eid user_id user_name =
     log_data eid ''login'' True user_id user_name
       (PStr (''User '' @ py_str w user_name @ '' scanned successfully''))"

text \<open>What a call of \<^verbatim>\<open>log_authentication_event\<close> passes on to its caller.\<close>

definition after_insert :: "remote \<Rightarrow> row \<Rightarrow> exc option" where
  "after_insert sb d =
     (case sb (Insert LOGS_TABLE d) of
        Inl KeyboardInterrupt \<Rightarrow> Some KeyboardInterrupt
      | _ \<Rightarrow> None)"

text \<open>A client that answers every insert with \<open>res\<close> and everything else as \<open>sb\<close> does.\<close>

definition with_insert :: "exc + row list \<Rightarrow> remote \<Rightarrow> remote" where
  "with_insert res sb q = (case q of Insert t d \<Rightarrow> res | _ \<Rightarrow> sb q)"

text \<open>
  The reads the loop accepts: every accepted read starts with the directory query for
  its identifier, recorded with the time of the read.
\<close>

fun accepted_read :: "stamped \<Rightarrow> (string \<times> real) option" where
  "accepted_read ((s, now), Remote (Select t col v)) = Some (v, now)"
| "accepted_read _ = None"

fun accepted_reads :: "stamped list \<Rightarrow> (string \<times> real) list" where
  "accepted_reads [] = []"
| "accepted_reads (x # xs) =
     (case accepted_read x of None \<Rightarrow> accepted_reads xs | Some r \<Rightarrow> r # accepted_reads xs)"

text \<open>Two neighbours with the same identifier are at least the cooldown apart.\<close>

fun dedup_ok :: "(string \<times> real) list \<Rightarrow> bool" where
  "dedup_ok ((e1, t1) # (e2, t2) # rest) =
     ((e1 = e2 \<longrightarrow> scan_cooldown \<le> t2 - t1) \<and> dedup_ok ((e2, t2) # rest))"
| "dedup_ok _ = True"

definition last_accepted :: "scan_state \<Rightarrow> (string \<times> real) list" where
  "last_accepted st =
     (case last_scanned_eid st of None \<Rightarrow> [] | Some e \<Rightarrow> [(e, last_scan_time st)])"

text \<open>The negation of the condition under which the loop body skips a read.\<close>

definition accepts :: "scan_state \<Rightarrow> string \<Rightarrow> real \<Rightarrow> bool" where
  "accepts st eid now \<longleftrightarrow>
     \<not> (Some eid = last_scanned_eid st \<and> now - last_scan_time st < scan_cooldown)"

section \<open>Concrete inputs\<close>

text \<open>
  Two machines with a reader: one whose console takes every line, one whose console
  is ASCII-only, so that printing a line with a check or cross mark raises
  \<^verbatim>\<open>UnicodeEncodeError\<close>.
\<close>

definition utf8_console :: world where
  "utf8_console = \<lparr>RASPBERRY_PI = True, reader = True, stdout = (\<lambda>line. None),
     str_of_float = (\<lambda>r. ''nan''), float_of_str = (\<lambda>s. None)\<rparr>"

definition ascii_console :: world where
  "ascii_console = utf8_console\<lparr>stdout :=
     (\<lambda>line. if list_all (\<lambda>c. (of_char c :: nat) < 128) line then None
             else Some (Exception ''UnicodeEncodeError''))\<rparr>"

text \<open>The directory of scenario A, a directory that cannot be reached, and a card read.\<close>

definition alice :: row where
  "alice = [''id'' \<mapsto> PStr ''u1'', ''name'' \<mapsto> PStr ''Alice'', ''eid'' \<mapsto> PStr ''123'']"

definition nameless :: row where
  "nameless = [''id'' \<mapsto> PStr ''u2'', ''name'' \<mapsto> PStr [], ''eid'' \<mapsto> PStr ''123'']"

definition unreachable :: remote where
  "unreachable q = Inl (Exception ''timeout'')"

definition card_tick :: "int \<Rightarrow> real \<Rightarrow> remote \<Rightarrow> tick" where
  "card_tick n now sb = \<lparr>reader_read = Inr (n, []), time_now = now, supabase = sb\<rparr>"

definition api_alice :: row where
  "api_alice = [''id'' \<mapsto> PStr ''u1'', ''name'' \<mapsto> PStr ''Alice'',
     ''rfidCardId'' \<mapsto> PStr ''123'', ''balance'' \<mapsto> PFloat 12.5,
     ''phoneNumber'' \<mapsto> PStr ''555'', ''createdAt'' \<mapsto> PStr ''2024-01-01'']"




section \<open>Auxiliary facts\<close>

text \<open>
  What \<^verbatim>\<open>scan_and_log\<close> and one pass of the loop do in each of their cases, the
  invariant of the loop, and the values of the functions at the concrete inputs.
\<close>

lemma call_log_eq:
  "call_log sb eid et s uid un msg =
     ([Remote (Insert LOGS_TABLE (log_data eid et s uid un msg))],
      after_insert sb (log_data eid et s uid un msg))"
  by (simp add: call_log_def log_authentication_event_def after_insert_def Let_def
      split: sum.split exc.split)

lemma scan_query_raises:
  "sb (Select USERS_TABLE ''eid'' eid) = Inl (Exception m) \<Longrightarrow>
   scan_and_log w sb eid =
     ([Remote (Select USERS_TABLE ''eid'' eid), Print (failed_line m)], stdout w (failed_line m))"
  by (simp add: scan_and_log_def scan_and_log_body_def failed_line_def Let_def)

lemma scan_query_interrupted:
  "sb (Select USERS_TABLE ''eid'' eid) = Inl KeyboardInterrupt \<Longrightarrow>
   scan_and_log w sb eid = ([Remote (Select USERS_TABLE ''eid'' eid)], Some KeyboardInterrupt)"
  by (simp add: scan_and_log_def scan_and_log_body_def Let_def)

lemma scan_not_found:
  "sb (Select USERS_TABLE ''eid'' eid) = Inr [] \<Longrightarrow> stdout w (not_found_line eid) = None \<Longrightarrow>
   scan_and_log w sb eid =
     ([Remote (Select USERS_TABLE ''eid'' eid), Print (not_found_line eid),
       Remote (Insert LOGS_TABLE (failed_event eid))], after_insert sb (failed_event eid))"
  by (simp add: scan_and_log_def scan_and_log_body_def call_log_eq not_found_line_def
      failed_event_def after_insert_def Let_def split: sum.split exc.split)

lemma scan_found:
  "sb (Select USERS_TABLE ''eid'' eid) = Inr (u # us) \<Longrightarrow> u ''id'' = Some uid \<Longrightarrow>
   u ''name'' = Some un \<Longrightarrow> stdout w (scanned_line w un eid) = None \<Longrightarrow>
   scan_and_log w sb eid =
     ([Remote (Select USERS_TABLE ''eid'' eid), Print (scanned_line w un eid),
       Remote (Insert LOGS_TABLE (login_event w eid uid un))], after_insert sb (login_event w eid uid un))"
  by (simp add: scan_and_log_def scan_and_log_body_def call_log_eq scanned_line_def subscript_def
      login_event_def after_insert_def Let_def split: sum.split exc.split)

lemma accepted_reads_scan:
  "accepted_reads (map (Pair (s, now)) (fst (scan_and_log w sb eid))) = [(eid, now)]"
  by (simp add: scan_and_log_def scan_and_log_body_def call_log_eq subscript_def Let_def
      split: sum.split exc.split list.split option.split)

lemma events_scan_le: "length (events (fst (scan_and_log w sb eid))) \<le> 1"
  by (simp add: scan_and_log_def scan_and_log_body_def call_log_eq subscript_def Let_def
      split: sum.split exc.split list.split option.split)

lemma iter_no_card:
  "read_rfid_card w (reader_read t) = Inr None \<Longrightarrow>
   main_iteration w t st = ([((st, time_now t), Sleep 0.1)], Inr st)"
  by (simp add: main_iteration_def)

lemma iter_interrupted:
  "read_rfid_card w (reader_read t) = Inl e \<Longrightarrow> main_iteration w t st = ([], Inl e)"
  by (simp add: main_iteration_def)

lemma iter_rejected:
  "read_rfid_card w (reader_read t) = Inr (Some (card_id, card_text)) \<Longrightarrow>
   \<not> accepts st (strip card_id) (time_now t) \<Longrightarrow>
   main_iteration w t st = ([((st, time_now t), Sleep 0.1)], Inr st)"
  by (simp add: main_iteration_def accepts_def Let_def)

lemma iter_accepted:
  "read_rfid_card w (reader_read t) = Inr (Some (card_id, card_text)) \<Longrightarrow>
   accepts st (strip card_id) (time_now t) \<Longrightarrow>
   main_iteration w t st =
     (map (Pair (st, time_now t)) (fst (scan_and_log w (supabase t) (strip card_id)))
        @ (case snd (scan_and_log w (supabase t) (strip card_id)) of
             None \<Rightarrow> [((\<lparr>last_scanned_eid = Some (strip card_id), last_scan_time = time_now t\<rparr>,
                        time_now t), Sleep 0.5)]
           | Some e \<Rightarrow> []),
      case snd (scan_and_log w (supabase t) (strip card_id)) of
        None \<Rightarrow> Inr \<lparr>last_scanned_eid = Some (strip card_id), last_scan_time = time_now t\<rparr>
      | Some e \<Rightarrow> Inl e)"
  by (simp add: main_iteration_def accepts_def Let_def split: prod.split option.split)

lemma accepted_reads_append:
  "accepted_reads (xs @ ys) = accepted_reads xs @ accepted_reads ys"
  by (induction xs) (simp_all split: option.split)

lemma iter_cases:
  obtains (idle) "accepted_reads (fst (main_iteration w t st)) = []"
      "snd (main_iteration w t st) = Inr st \<or> (\<exists>e. snd (main_iteration w t st) = Inl e)"
  | (scan) eid where "accepted_reads (fst (main_iteration w t st)) = [(eid, time_now t)]"
      "accepts st eid (time_now t)"
      "snd (main_iteration w t st) = Inr \<lparr>last_scanned_eid = Some eid, last_scan_time = time_now t\<rparr>
         \<or> (\<exists>e. snd (main_iteration w t st) = Inl e)"
proof (cases "read_rfid_card w (reader_read t)")
  case (Inl e)
  then show ?thesis using idle by (simp add: iter_interrupted)
next
  case (Inr r)
  show ?thesis
  proof (cases r)
    case None
    with Inr show ?thesis using idle by (simp add: iter_no_card)
  next
    case (Some p)
    obtain card_id card_text where p: "p = (card_id, card_text)" by (cases p)
    show ?thesis
    proof (cases "accepts st (strip card_id) (time_now t)")
      case False
      with Inr Some p show ?thesis using idle by (simp add: iter_rejected)
    next
      case True
      with Inr Some p have eq: "main_iteration w t st =
     (map (Pair (st, time_now t)) (fst (scan_and_log w (supabase t) (strip card_id)))
        @ (case snd (scan_and_log w (supabase t) (strip card_id)) of
             None \<Rightarrow> [((\<lparr>last_scanned_eid = Some (strip card_id), last_scan_time = time_now t\<rparr>,
                        time_now t), Sleep 0.5)]
           | Some e \<Rightarrow> []),
      case snd (scan_and_log w (supabase t) (strip card_id)) of
        None \<Rightarrow> Inr \<lparr>last_scanned_eid = Some (strip card_id), last_scan_time = time_now t\<rparr>
      | Some e \<Rightarrow> Inl e)" by (simp add: iter_accepted)
      have a: "accepted_reads (fst (main_iteration w t st)) = [(strip card_id, time_now t)]"
        by (simp add: eq accepted_reads_append accepted_reads_scan split: option.split)
      have b: "snd (main_iteration w t st) = Inr \<lparr>last_scanned_eid = Some (strip card_id), last_scan_time = time_now t\<rparr>
         \<or> (\<exists>e. snd (main_iteration w t st) = Inl e)"
        by (simp add: eq split: option.split)
      from a True b show ?thesis by (rule scan)
    qed
  qed
qed

lemma main_loop_continue:
  "main_iteration w t st = (tr, Inr st') \<Longrightarrow>
   main_loop w (t # ts) st = (tr @ fst (main_loop w ts st'), snd (main_loop w ts st'))"
  by (simp split: prod.split)

lemma main_loop_stop:
  "main_iteration w t st = (tr, Inl e) \<Longrightarrow> main_loop w (t # ts) st = (tr, Inl e)"
  by simp

lemma main_loop_dedup:
  "dedup_ok (last_accepted st @ accepted_reads (fst (main_loop w ts st)))"
proof (induction ts arbitrary: st)
  case Nil
  show ?case by (simp add: last_accepted_def split: option.split)
next
  case (Cons t ts)
  obtain tr r where it: "main_iteration w t st = (tr, r)" by (cases "main_iteration w t st")
  show ?case
  proof (cases rule: iter_cases [of w t st])
    case idle
    show ?thesis
    proof (cases r)
      case (Inl e)
      with it idle show ?thesis
        by (simp add: main_loop_stop last_accepted_def del: main_loop.simps split: option.split)
    next
      case (Inr st')
      with it idle have "st' = st" by simp
      with it Inr idle Cons.IH [of st] show ?thesis
        by (simp add: main_loop_continue accepted_reads_append del: main_loop.simps)
    qed
  next
    case (scan eid)
    have first: "dedup_ok (last_accepted st @ [(eid, time_now t)])"
      using scan(2) by (auto simp: last_accepted_def accepts_def split: option.split)
    show ?thesis
    proof (cases r)
      case (Inl e)
      with it scan first show ?thesis by (simp add: main_loop_stop del: main_loop.simps)
    next
      case (Inr st')
      with it scan have st': "st' = \<lparr>last_scanned_eid = Some eid, last_scan_time = time_now t\<rparr>"
        by simp
      have "dedup_ok ((eid, time_now t) # accepted_reads (fst (main_loop w ts st')))"
        using Cons.IH [of st'] by (simp add: st' last_accepted_def)
      with first have "dedup_ok (last_accepted st @ (eid, time_now t) # accepted_reads (fst (main_loop w ts st')))"
        by (cases "last_scanned_eid st") (auto simp: last_accepted_def)
      with it Inr scan show ?thesis
        by (simp add: main_loop_continue accepted_reads_append del: main_loop.simps)
    qed
  qed
qed

lemma scan_trace_hd:
  "\<exists>rest. fst (scan_and_log w sb eid) = Remote (Select USERS_TABLE ''eid'' eid) # rest"
  by (simp add: scan_and_log_def scan_and_log_body_def call_log_eq subscript_def Let_def
      split: sum.split exc.split list.split option.split)

lemma scan_returns:
  assumes "\<forall>line. stdout w line = None" and "\<forall>q. sb q \<noteq> Inl KeyboardInterrupt"
  shows "snd (scan_and_log w sb eid) = None"
proof -
  have a: "\<And>d. after_insert sb d = None"
    using assms(2) by (auto simp: after_insert_def split: sum.split exc.split)
  have b: "sb (Select USERS_TABLE ''eid'' eid) \<noteq> Inl KeyboardInterrupt"
    using assms(2) by blast
  show ?thesis using b
    by (simp add: scan_and_log_def scan_and_log_body_def call_log_eq subscript_def Let_def a assms(1)
        split: sum.split exc.split list.split option.split)
qed

lemma scan_insert_irrelevant:
  assumes "res \<noteq> Inl KeyboardInterrupt" and "res' \<noteq> Inl KeyboardInterrupt"
  shows "scan_and_log w (with_insert res sb) eid = scan_and_log w (with_insert res' sb) eid"
proof -
  have a: "\<And>d. after_insert (with_insert res sb) d = None"
    using assms(1) by (auto simp: after_insert_def with_insert_def split: sum.split exc.split)
  have b: "\<And>d. after_insert (with_insert res' sb) d = None"
    using assms(2) by (auto simp: after_insert_def with_insert_def split: sum.split exc.split)
  have c: "\<And>r. with_insert r sb (Select USERS_TABLE ''eid'' eid) = sb (Select USERS_TABLE ''eid'' eid)"
    by (simp add: with_insert_def)
  have "scan_and_log_body w (with_insert res sb) eid = scan_and_log_body w (with_insert res' sb) eid"
    by (simp add: scan_and_log_body_def call_log_eq a b c Let_def
        split: sum.split list.split option.split)
  then show ?thesis
    by (simp add: scan_and_log_def)
qed

lemma read_returns:
  "rd \<noteq> Inl KeyboardInterrupt \<Longrightarrow> \<exists>r. read_rfid_card w rd = Inr r"
  by (auto simp: read_rfid_card_def split: sum.split exc.split)

lemma events_append: "events (xs @ ys) = events xs @ events ys"
  by (induction xs) (simp_all split: option.split)

lemma str_of_int_123: "str_of_int 123 = ''123''"
  by code_simp

lemma str_of_int_456: "str_of_int 456 = ''456''"
  by code_simp

lemma strip_123: "strip ''123'' = ''123''" "strip ''456'' = ''456''"
  by code_simp+

lemma read_card_tick:
  "read_rfid_card utf8_console (reader_read (card_tick 123 now sb)) = Inr (Some (''123'', []))"
  "read_rfid_card utf8_console (reader_read (card_tick 456 now sb)) = Inr (Some (''456'', []))"
  "read_rfid_card ascii_console (reader_read (card_tick 123 now sb)) = Inr (Some (''123'', []))"
  by (simp_all add: read_rfid_card_def utf8_console_def ascii_console_def card_tick_def
       str_of_int_123 str_of_int_456)

lemma scan_alice:
  "scan_and_log utf8_console (directory [alice]) ''123'' =
     ([Remote (Select ''users'' ''eid'' ''123''),
       Print (check_mark @ '' Alice scanned (EID: 123)''),
       Remote (Insert ''authentication_logs'' (login_event utf8_console ''123'' (PStr ''u1'') (PStr ''Alice'')))],
      None)"
proof -
  have "scan_and_log utf8_console (directory [alice]) ''123'' =
     ([Remote (Select USERS_TABLE ''eid'' ''123''), Print (scanned_line utf8_console (PStr ''Alice'') ''123''),
       Remote (Insert LOGS_TABLE (login_event utf8_console ''123'' (PStr ''u1'') (PStr ''Alice'')))],
      after_insert (directory [alice]) (login_event utf8_console ''123'' (PStr ''u1'') (PStr ''Alice'')))"
    by (rule scan_found [where u = alice and us = "[]"])
       (simp_all add: directory_def alice_def utf8_console_def USERS_TABLE_def)
  then show ?thesis
    by (simp add: USERS_TABLE_def LOGS_TABLE_def scanned_line_def py_str_def after_insert_def directory_def)
qed

lemma scan_unknown:
  "scan_and_log utf8_console (directory [alice]) ''456'' =
     ([Remote (Select ''users'' ''eid'' ''456''),
       Print (cross_mark @ '' No user found with EID: 456''),
       Remote (Insert ''authentication_logs'' (failed_event ''456''))],
      None)"
proof -
  have "scan_and_log utf8_console (directory [alice]) ''456'' =
     ([Remote (Select USERS_TABLE ''eid'' ''456''), Print (not_found_line ''456''),
       Remote (Insert LOGS_TABLE (failed_event ''456''))],
      after_insert (directory [alice]) (failed_event ''456''))"
    by (rule scan_not_found)
       (simp_all add: directory_def alice_def utf8_console_def USERS_TABLE_def)
  then show ?thesis
    by (simp add: USERS_TABLE_def LOGS_TABLE_def not_found_line_def after_insert_def directory_def)
qed

lemma scan_unreachable_utf8:
  "scan_and_log utf8_console unreachable ''123'' =
     ([Remote (Select ''users'' ''eid'' ''123''), Print (cross_mark @ '' Failed to scan: timeout'')], None)"
  using scan_query_raises [of unreachable "''123''" "''timeout''" utf8_console]
  by (simp add: unreachable_def USERS_TABLE_def failed_line_def utf8_console_def)

lemma scan_unreachable_ascii:
  "scan_and_log ascii_console unreachable ''123'' =
     ([Remote (Select ''users'' ''eid'' ''123''), Print (cross_mark @ '' Failed to scan: timeout'')],
      Some (Exception ''UnicodeEncodeError''))"
  using scan_query_raises [of unreachable "''123''" "''timeout''" ascii_console]
  by (simp add: unreachable_def USERS_TABLE_def failed_line_def ascii_console_def utf8_console_def cross_mark_def)

lemma log_data_fields:
  "log_data eid et s uid un msg ''eid'' = Some (PStr eid)"
  "log_data eid et s uid un msg ''event_type'' = Some (PStr et)"
  "log_data eid et s uid un msg ''success'' = Some (PBool s)"
  "log_data eid et s uid un msg ''message'' = Some msg"
  "log_data eid et s uid un msg ''user_id'' = (if py_truthy uid then Some uid else None)"
  "log_data eid et s uid un msg ''user_name'' = (if py_truthy un then Some un else None)"
  by (simp_all add: log_data_def Let_def)

lemma iter_alice:
  "accepts st ''123'' now \<Longrightarrow>
   main_iteration utf8_console (card_tick 123 now (directory [alice])) st =
     ([((st, now), Remote (Select ''users'' ''eid'' ''123'')),
       ((st, now), Print (check_mark @ '' Alice scanned (EID: 123)'')),
       ((st, now), Remote (Insert ''authentication_logs''
          (login_event utf8_console ''123'' (PStr ''u1'') (PStr ''Alice'')))),
       ((\<lparr>last_scanned_eid = Some ''123'', last_scan_time = now\<rparr>, now), Sleep 0.5)],
      Inr \<lparr>last_scanned_eid = Some ''123'', last_scan_time = now\<rparr>)"
  using iter_accepted [of utf8_console "card_tick 123 now (directory [alice])" "''123''" "[]" st]
    read_card_tick(1) [of now "directory [alice]"]
  by (simp add: strip_123 scan_alice card_tick_def)

lemma iter_unknown:
  "accepts st ''456'' now \<Longrightarrow>
   main_iteration utf8_console (card_tick 456 now (directory [alice])) st =
     ([((st, now), Remote (Select ''users'' ''eid'' ''456'')),
       ((st, now), Print (cross_mark @ '' No user found with EID: 456'')),
       ((st, now), Remote (Insert ''authentication_logs'' (failed_event ''456''))),
       ((\<lparr>last_scanned_eid = Some ''456'', last_scan_time = now\<rparr>, now), Sleep 0.5)],
      Inr \<lparr>last_scanned_eid = Some ''456'', last_scan_time = now\<rparr>)"
  using iter_accepted [of utf8_console "card_tick 456 now (directory [alice])" "''456''" "[]" st]
    read_card_tick(2) [of now "directory [alice]"]
  by (simp add: strip_123 scan_unknown card_tick_def)



lemma iter_continues:
  assumes "\<forall>line. stdout w line = None" and "reader_read t \<noteq> Inl KeyboardInterrupt"
    and "\<forall>q. supabase t q \<noteq> Inl KeyboardInterrupt"
  shows "\<exists>st'. snd (main_iteration w t st) = Inr st'"
proof -
  obtain r where r: "read_rfid_card w (reader_read t) = Inr r"
    using read_returns [OF assms(2)] by blast
  show ?thesis
  proof (cases r)
    case None
    with r show ?thesis by (simp add: iter_no_card)
  next
    case (Some p)
    obtain card_id card_text where p: "p = (card_id, card_text)" by (cases p)
    show ?thesis
    proof (cases "accepts st (strip card_id) (time_now t)")
      case False
      with r Some p show ?thesis by (simp add: iter_rejected)
    next
      case True
      with r Some p show ?thesis
        by (simp add: iter_accepted scan_returns [OF assms(1) assms(3)])
    qed
  qed
qed

lemma main_exit_cleanup:
  assumes "stdout w header_line1 = None" and "stdout w header_line2 = None"
    and "snd (main_loop w ticks initial_state) = Inl e" and "RASPBERRY_PI w"
  shows "last (fst (main w ticks)) = Cleanup \<and> (\<forall>st. snd (main w ticks) \<noteq> Running st)"
proof -
  obtain tr where tr: "main_loop w ticks initial_state = (tr, Inl e)"
    using assms(3) by (cases "main_loop w ticks initial_state") simp
  show ?thesis
    using assms(1,2,4) tr
    by (cases e)
       (simp_all add: main_def main_finally_def split: option.split)
qed

lemma main_loop_ascii_unreachable:
  "main_loop ascii_console (card_tick 123 10 unreachable # ticks) initial_state
     = ([((initial_state, 10), Remote (Select ''users'' ''eid'' ''123'')),
         ((initial_state, 10), Print (cross_mark @ '' Failed to scan: timeout''))],
        Inl (Exception ''UnicodeEncodeError''))"
proof -
  have "accepts initial_state (strip ''123'') (time_now (card_tick 123 10 unreachable))"
    by (simp add: accepts_def initial_state_def)
  then have "main_iteration ascii_console (card_tick 123 10 unreachable) initial_state
     = ([((initial_state, 10), Remote (Select ''users'' ''eid'' ''123'')),
         ((initial_state, 10), Print (cross_mark @ '' Failed to scan: timeout''))],
        Inl (Exception ''UnicodeEncodeError''))"
    using iter_accepted [of ascii_console "card_tick 123 10 unreachable" "''123''" "[]" initial_state]
      read_card_tick(3) [of 10 unreachable]
    by (simp add: strip_123 scan_unreachable_ascii card_tick_def)
  then show ?thesis
    by (rule main_loop_stop)
qed




section \<open>Claims\<close>

text \<open>
  C9 (as amended). The balance update is not a plain pass-through: the value is converted
  with \<^verbatim>\<open>float\<close> and clamped below at \<open>0.0\<close>. For both \<^verbatim>\<open>update_user_balance\<close> and
  \<^verbatim>\<open>update_user_balance_by_id\<close>, with a client present, exactly one balance is written
  when the conversion succeeds, and it is \<open>max 0\<close> of the converted value (so the
  caller's value itself when that is not negative); nothing is written when the conversion
  raises.
\<close>

theorem update_balance_clamped:
  "List.map_filter written_balance (fst (update_user_balance w (Some c) eid v))
     = (case py_float w v of Inr f \<Rightarrow> [PFloat (max 0 f)] | Inl e \<Rightarrow> [])
   \<and> List.map_filter written_balance (fst (update_user_balance_by_id w (Some c) user_id v))
     = (case py_float w v of Inr f \<Rightarrow> [PFloat (max 0 f)] | Inl e \<Rightarrow> [])"
  by (auto simp: update_user_balance_def update_user_balance_by_id_def update_balance_where_def
       List.map_filter_simps Let_def split: sum.splits exc.splits list.splits option.splits)

text \<open>
  The instance at a balance of \<open>7.5\<close> for the card \<open>123\<close> and the user \<open>u1\<close>: the value
  goes through unchanged.
\<close>

theorem update_balance_clamped_witness:
  "List.map_filter written_balance
     (fst (update_user_balance utf8_console (Some (directory [alice])) (PStr ''123'') (PFloat 7.5)))
     = [PFloat 7.5]
   \<and> List.map_filter written_balance
     (fst (update_user_balance_by_id utf8_console (Some (directory [alice])) (PStr ''u1'') (PFloat 7.5)))
     = [PFloat 7.5]"
  using update_balance_clamped [of utf8_console "directory [alice]" "PStr ''123''" "PFloat 7.5" "PStr ''u1''"]
  by (simp add: py_float_def)

text \<open>
  C9 as stated fails: a caller who supplies \<open>-5\<close> has \<open>0\<close> written to the record.
\<close>

theorem update_balance_not_pass_through:
  "List.map_filter written_balance
     (fst (update_user_balance utf8_console (Some (directory [alice])) (PStr ''123'') (PFloat (- 5))))
   = [PFloat 0] \<and> PFloat 0 \<noteq> PFloat (- 5)"
  by (simp add: update_user_balance_def update_balance_where_def py_float_def
       directory_def List.map_filter_simps Let_def)

text \<open>
  C10. Whenever \<^verbatim>\<open>float\<close> accepts the balance of a record (as it does for every
  API-format record, whose balance is a float), converting the record to database format
  and back returns a record that keeps the name and the phone number, carries the card id
  as a string and the balance as a float, and has the empty string as id and as creation
  time.
\<close>

theorem api_round_trip:
  assumes "py_float w (dict_get u ''balance'' (PFloat 0)) = Inr b"
  shows "\<exists>db r. convert_from_api_format w u = Inr db \<and> convert_to_api_format w db = Inr r
           \<and> r ''name'' = Some (dict_get u ''name'' (PStr []))
           \<and> r ''phoneNumber'' = Some (dict_get u ''phoneNumber'' (PStr []))
           \<and> r ''rfidCardId'' = Some (PStr (py_str w (dict_get u ''rfidCardId'' (PStr []))))
           \<and> r ''balance'' = Some (PFloat b)
           \<and> r ''id'' = Some (PStr [])
           \<and> r ''createdAt'' = Some (PStr [])"
  using assms
  by (simp add: convert_from_api_format_def convert_to_api_format_def dict_get_def
       py_float_def py_str_def)

text \<open>C10, at an API record for Alice with a balance of \<open>12.5\<close>.\<close>

theorem api_round_trip_witness:
  "py_float utf8_console (dict_get api_alice ''balance'' (PFloat 0)) = Inr 12.5
   \<and> (\<exists>db r. convert_from_api_format utf8_console api_alice = Inr db
         \<and> convert_to_api_format utf8_console db = Inr r
         \<and> r ''name'' = Some (PStr ''Alice'')
         \<and> r ''phoneNumber'' = Some (PStr ''555'')
         \<and> r ''rfidCardId'' = Some (PStr ''123'')
         \<and> r ''balance'' = Some (PFloat 12.5)
         \<and> r ''id'' = Some (PStr [])
         \<and> r ''createdAt'' = Some (PStr []))"
proof -
  have h: "py_float utf8_console (dict_get api_alice ''balance'' (PFloat 0)) = Inr 12.5"
    by (simp add: py_float_def dict_get_def api_alice_def)
  show ?thesis
    using h api_round_trip [OF h]
    by (simp add: dict_get_def api_alice_def py_str_def)
qed

text \<open>
  C2 (as amended). A scan appends at most one event. When the directory query returns
  and the console takes the line that is printed first (and a returned row has the fields
  \<open>id\<close> and \<open>name\<close>), exactly one event is appended: a \<open>failed\<close> event when no row
  came back, a \<open>login\<close> event when one did. When the directory query raises, the handler
  of \<^verbatim>\<open>scan_and_log\<close> prints a line and no event is appended at all.
\<close>

theorem scan_outcomes:
  "length (events (fst (scan_and_log w sb eid))) \<le> 1
   \<and> (sb (Select USERS_TABLE ''eid'' eid) = Inl e \<longrightarrow> events (fst (scan_and_log w sb eid)) = [])
   \<and> (sb (Select USERS_TABLE ''eid'' eid) = Inr [] \<and> stdout w (not_found_line eid) = None \<longrightarrow>
        map (\<lambda>d. d ''event_type'') (events (fst (scan_and_log w sb eid))) = [Some (PStr ''failed'')])
   \<and> (sb (Select USERS_TABLE ''eid'' eid) = Inr (u # us) \<and> u ''id'' = Some uid
        \<and> u ''name'' = Some un \<and> stdout w (scanned_line w un eid) = None \<longrightarrow>
        map (\<lambda>d. d ''event_type'') (events (fst (scan_and_log w sb eid))) = [Some (PStr ''login'')])"
proof (intro conjI impI)
  show "length (events (fst (scan_and_log w sb eid))) \<le> 1"
    by (rule events_scan_le)
next
  assume q: "sb (Select USERS_TABLE ''eid'' eid) = Inl e"
  show "events (fst (scan_and_log w sb eid)) = []"
  proof (cases e)
    case KeyboardInterrupt
    with q show ?thesis by (simp add: scan_query_interrupted)
  next
    case (Exception m)
    with q show ?thesis by (simp add: scan_query_raises)
  qed
next
  assume "sb (Select USERS_TABLE ''eid'' eid) = Inr [] \<and> stdout w (not_found_line eid) = None"
  then show "map (\<lambda>d. d ''event_type'') (events (fst (scan_and_log w sb eid))) = [Some (PStr ''failed'')]"
    by (simp add: scan_not_found failed_event_def log_data_fields)
next
  assume h: "sb (Select USERS_TABLE ''eid'' eid) = Inr (u # us) \<and> u ''id'' = Some uid
        \<and> u ''name'' = Some un \<and> stdout w (scanned_line w un eid) = None"
  have "scan_and_log w sb eid =
     ([Remote (Select USERS_TABLE ''eid'' eid), Print (scanned_line w un eid),
       Remote (Insert LOGS_TABLE (login_event w eid uid un))], after_insert sb (login_event w eid uid un))"
    using h by (intro scan_found [where u = u and us = us]) simp_all
  then show "map (\<lambda>d. d ''event_type'') (events (fst (scan_and_log w sb eid))) = [Some (PStr ''login'')]"
    by (simp add: login_event_def log_data_fields)
qed

text \<open>
  C2, at concrete inputs: the card \<open>123\<close> of scenario A gives one \<open>login\<close> event, the
  unknown card \<open>456\<close> one \<open>failed\<close> event, and a directory that cannot be reached gives none.
\<close>

theorem scan_outcomes_witness:
  "directory [alice] (Select USERS_TABLE ''eid'' ''123'') = Inr [alice]
   \<and> alice ''id'' = Some (PStr ''u1'') \<and> alice ''name'' = Some (PStr ''Alice'')
   \<and> stdout utf8_console (scanned_line utf8_console (PStr ''Alice'') ''123'') = None
   \<and> map (\<lambda>d. d ''event_type'') (events (fst (scan_and_log utf8_console (directory [alice]) ''123'')))
       = [Some (PStr ''login'')]
   \<and> directory [alice] (Select USERS_TABLE ''eid'' ''456'') = Inr []
   \<and> stdout utf8_console (not_found_line ''456'') = None
   \<and> map (\<lambda>d. d ''event_type'') (events (fst (scan_and_log utf8_console (directory [alice]) ''456'')))
       = [Some (PStr ''failed'')]
   \<and> unreachable (Select USERS_TABLE ''eid'' ''123'') = Inl (Exception ''timeout'')
   \<and> events (fst (scan_and_log utf8_console unreachable ''123'')) = []"
proof -
  have a: "directory [alice] (Select USERS_TABLE ''eid'' ''123'') = Inr [alice]"
    by (simp add: directory_def alice_def)
  have b: "alice ''id'' = Some (PStr ''u1'')" "alice ''name'' = Some (PStr ''Alice'')"
    by (simp_all add: alice_def)
  have c: "stdout utf8_console (scanned_line utf8_console (PStr ''Alice'') ''123'') = None"
    "stdout utf8_console (not_found_line ''456'') = None"
    by (simp_all add: utf8_console_def)
  have d: "directory [alice] (Select USERS_TABLE ''eid'' ''456'') = Inr []"
    by (simp add: directory_def alice_def)
  have e: "unreachable (Select USERS_TABLE ''eid'' ''123'') = Inl (Exception ''timeout'')"
    by (simp add: unreachable_def)
  show ?thesis
    using a b c d e
      scan_outcomes [of utf8_console "directory [alice]" "''123''" "Exception ''timeout''" alice "[]" "PStr ''u1''" "PStr ''Alice''"]
      scan_outcomes [of utf8_console "directory [alice]" "''456''" "Exception ''timeout''" alice "[]" "PStr ''u1''" "PStr ''Alice''"]
      scan_outcomes [of utf8_console unreachable "''123''" "Exception ''timeout''" alice "[]" "PStr ''u1''" "PStr ''Alice''"]
    by simp
qed

text \<open>
  C2 as stated fails when the directory query raises: the scan returns normally and has
  appended neither a \<open>login\<close> nor a \<open>failed\<close> event.
\<close>

theorem scan_query_fault_no_event:
  "events (fst (scan_and_log utf8_console unreachable ''123'')) = []
   \<and> snd (scan_and_log utf8_console unreachable ''123'') = None"
  by (simp add: scan_unreachable_utf8)

text \<open>
  C5 (as amended). When the directory returns a row for the identifier (with the fields
  \<open>id\<close> and \<open>name\<close>, and the console takes the line printed first), the one event
  appended has type \<open>login\<close>, success true, and carries the row's id and name where these
  are truthy: \<^verbatim>\<open>log_authentication_event\<close> leaves a falsy id or name (an empty string,
  zero, \<open>None\<close>) out of the event. When no row is returned, the event has type \<open>failed\<close>,
  success false, no user id and no user name, and the message
  \<^verbatim>\<open>No user found with EID: \<close> followed by the scanned identifier.
\<close>

theorem scan_event_fields:
  "(sb (Select USERS_TABLE ''eid'' eid) = Inr (u # us) \<and> u ''id'' = Some uid
      \<and> u ''name'' = Some un \<and> stdout w (scanned_line w un eid) = None \<longrightarrow>
      (\<exists>d. events (fst (scan_and_log w sb eid)) = [d]
         \<and> d ''eid'' = Some (PStr eid)
         \<and> d ''event_type'' = Some (PStr ''login'')
         \<and> d ''success'' = Some (PBool True)
         \<and> d ''user_id'' = (if py_truthy uid then Some uid else None)
         \<and> d ''user_name'' = (if py_truthy un then Some un else None)))
   \<and> (sb (Select USERS_TABLE ''eid'' eid) = Inr [] \<and> stdout w (not_found_line eid) = None \<longrightarrow>
      (\<exists>d. events (fst (scan_and_log w sb eid)) = [d]
         \<and> d ''eid'' = Some (PStr eid)
         \<and> d ''event_type'' = Some (PStr ''failed'')
         \<and> d ''success'' = Some (PBool False)
         \<and> d ''user_id'' = None
         \<and> d ''user_name'' = None
         \<and> d ''message'' = Some (PStr (''No user found with EID: '' @ eid))))"
proof (intro conjI impI)
  assume h: "sb (Select USERS_TABLE ''eid'' eid) = Inr (u # us) \<and> u ''id'' = Some uid
      \<and> u ''name'' = Some un \<and> stdout w (scanned_line w un eid) = None"
  have "scan_and_log w sb eid =
     ([Remote (Select USERS_TABLE ''eid'' eid), Print (scanned_line w un eid),
       Remote (Insert LOGS_TABLE (login_event w eid uid un))], after_insert sb (login_event w eid uid un))"
    using h by (intro scan_found [where u = u and us = us]) simp_all
  then have "events (fst (scan_and_log w sb eid)) = [login_event w eid uid un]"
    by simp
  then show "\<exists>d. events (fst (scan_and_log w sb eid)) = [d]
         \<and> d ''eid'' = Some (PStr eid)
         \<and> d ''event_type'' = Some (PStr ''login'')
         \<and> d ''success'' = Some (PBool True)
         \<and> d ''user_id'' = (if py_truthy uid then Some uid else None)
         \<and> d ''user_name'' = (if py_truthy un then Some un else None)"
    by (simp add: login_event_def log_data_fields)
next
  assume "sb (Select USERS_TABLE ''eid'' eid) = Inr [] \<and> stdout w (not_found_line eid) = None"
  then have "events (fst (scan_and_log w sb eid)) = [failed_event eid]"
    by (simp add: scan_not_found)
  then show "\<exists>d. events (fst (scan_and_log w sb eid)) = [d]
         \<and> d ''eid'' = Some (PStr eid)
         \<and> d ''event_type'' = Some (PStr ''failed'')
         \<and> d ''success'' = Some (PBool False)
         \<and> d ''user_id'' = None
         \<and> d ''user_name'' = None
         \<and> d ''message'' = Some (PStr (''No user found with EID: '' @ eid))"
    by (simp add: failed_event_def log_data_fields py_truthy_def)
qed

text \<open>C5, at the inputs of scenarios A and B.\<close>

theorem scan_event_fields_witness:
  "directory [alice] (Select USERS_TABLE ''eid'' ''123'') = Inr [alice]
   \<and> alice ''id'' = Some (PStr ''u1'') \<and> alice ''name'' = Some (PStr ''Alice'')
   \<and> stdout utf8_console (scanned_line utf8_console (PStr ''Alice'') ''123'') = None
   \<and> (\<exists>d. events (fst (scan_and_log utf8_console (directory [alice]) ''123'')) = [d]
         \<and> d ''eid'' = Some (PStr ''123'')
         \<and> d ''event_type'' = Some (PStr ''login'')
         \<and> d ''success'' = Some (PBool True)
         \<and> d ''user_id'' = Some (PStr ''u1'')
         \<and> d ''user_name'' = Some (PStr ''Alice''))
   \<and> directory [alice] (Select USERS_TABLE ''eid'' ''999'') = Inr []
   \<and> stdout utf8_console (not_found_line ''999'') = None
   \<and> (\<exists>d. events (fst (scan_and_log utf8_console (directory [alice]) ''999'')) = [d]
         \<and> d ''event_type'' = Some (PStr ''failed'')
         \<and> d ''success'' = Some (PBool False)
         \<and> d ''user_id'' = None
         \<and> d ''user_name'' = None
         \<and> d ''message'' = Some (PStr ''No user found with EID: 999''))"
proof -
  have a: "directory [alice] (Select USERS_TABLE ''eid'' ''123'') = Inr [alice]"
    by (simp add: directory_def alice_def)
  have b: "alice ''id'' = Some (PStr ''u1'')" "alice ''name'' = Some (PStr ''Alice'')"
    by (simp_all add: alice_def)
  have c: "stdout utf8_console (scanned_line utf8_console (PStr ''Alice'') ''123'') = None"
    "stdout utf8_console (not_found_line ''999'') = None"
    by (simp_all add: utf8_console_def)
  have d: "directory [alice] (Select USERS_TABLE ''eid'' ''999'') = Inr []"
    by (simp add: directory_def alice_def)
  have t: "py_truthy (PStr ''u1'')" "py_truthy (PStr ''Alice'')"
    by (simp_all add: py_truthy_def)
  show ?thesis
    using a b c d t
      scan_event_fields [of "directory [alice]" "''123''" alice "[]" "PStr ''u1''" "PStr ''Alice''" utf8_console]
      scan_event_fields [of "directory [alice]" "''999''" alice "[]" "PStr ''u1''" "PStr ''Alice''" utf8_console]
    by auto
qed

text \<open>
  C5 as stated fails for a matching record whose name is the empty string: the \<open>login\<close>
  event is appended without a user name.
\<close>

theorem empty_name_not_carried:
  "directory [nameless] (Select USERS_TABLE ''eid'' ''123'') = Inr [nameless]
   \<and> nameless ''name'' = Some (PStr [])
   \<and> map (\<lambda>d. (d ''event_type'', d ''user_name''))
        (events (fst (scan_and_log utf8_console (directory [nameless]) ''123'')))
      = [(Some (PStr ''login''), None)]"
proof -
  have a: "directory [nameless] (Select USERS_TABLE ''eid'' ''123'') = Inr [nameless]"
    by (simp add: directory_def nameless_def)
  have "scan_and_log utf8_console (directory [nameless]) ''123'' =
     ([Remote (Select USERS_TABLE ''eid'' ''123''), Print (scanned_line utf8_console (PStr []) ''123''),
       Remote (Insert LOGS_TABLE (login_event utf8_console ''123'' (PStr ''u2'') (PStr [])))],
      after_insert (directory [nameless]) (login_event utf8_console ''123'' (PStr ''u2'') (PStr [])))"
    by (rule scan_found [where u = nameless and us = "[]"])
       (simp_all add: a, simp_all add: nameless_def utf8_console_def)
  then show ?thesis
    using a by (simp add: login_event_def log_data_fields py_truthy_def nameless_def)
qed

text \<open>
  C7. \<^verbatim>\<open>log_authentication_event\<close> never raises an exception of class \<open>Exception\<close> to
  its caller, and returns \<open>False\<close> when the insert raises one. Its result is dropped by
  the loop: whatever an insert does (return rows, return nothing, raise), one pass of the
  loop issues the same effects in the same order, with the same sleep, and ends in the
  same state; and a pass appends at most one event, so a failed append is not retried.
\<close>

theorem append_failure_swallowed:
  "snd (log_authentication_event sb eid event_type success user_id user_name message)
     \<noteq> Inl (Exception m)
   \<and> (sb (Insert LOGS_TABLE (log_data eid event_type success user_id user_name message))
        = Inl (Exception m) \<longrightarrow>
      snd (log_authentication_event sb eid event_type success user_id user_name message)
        = Inr False)
   \<and> (res \<noteq> Inl KeyboardInterrupt \<and> res' \<noteq> Inl KeyboardInterrupt \<longrightarrow>
      main_iteration w (t\<lparr>supabase := with_insert res sb\<rparr>) st
        = main_iteration w (t\<lparr>supabase := with_insert res' sb\<rparr>) st)
   \<and> length (events (map snd (fst (main_iteration w t st)))) \<le> 1"
proof (intro conjI impI)
  show "snd (log_authentication_event sb eid event_type success user_id user_name message)
     \<noteq> Inl (Exception m)"
    by (simp add: log_authentication_event_def Let_def split: sum.split exc.split)
next
  assume "sb (Insert LOGS_TABLE (log_data eid event_type success user_id user_name message))
        = Inl (Exception m)"
  then show "snd (log_authentication_event sb eid event_type success user_id user_name message)
        = Inr False"
    by (simp add: log_authentication_event_def Let_def)
next
  assume "res \<noteq> Inl KeyboardInterrupt \<and> res' \<noteq> Inl KeyboardInterrupt"
  then have "\<And>eid. scan_and_log w (with_insert res sb) eid = scan_and_log w (with_insert res' sb) eid"
    by (simp add: scan_insert_irrelevant)
  then show "main_iteration w (t\<lparr>supabase := with_insert res sb\<rparr>) st
        = main_iteration w (t\<lparr>supabase := with_insert res' sb\<rparr>) st"
    by (simp add: main_iteration_def Let_def split: sum.split option.split prod.split)
next
  show "length (events (map snd (fst (main_iteration w t st)))) \<le> 1"
  proof (cases "read_rfid_card w (reader_read t)")
    case (Inl e)
    then show ?thesis by (simp add: iter_interrupted)
  next
    case (Inr r)
    show ?thesis
    proof (cases r)
      case None
      with Inr show ?thesis by (simp add: iter_no_card)
    next
      case (Some p)
      obtain card_id card_text where p: "p = (card_id, card_text)" by (cases p)
      show ?thesis
      proof (cases "accepts st (strip card_id) (time_now t)")
        case False
        with Inr Some p show ?thesis by (simp add: iter_rejected)
      next
        case True
        with Inr Some p show ?thesis
          using events_scan_le [of w "supabase t" "strip card_id"]
          by (simp add: iter_accepted events_append comp_def split: option.split)
      qed
    qed
  qed
qed

text \<open>
  C7, at the card \<open>123\<close> of scenario A: with an audit log that raises on every insert the
  pass is the one with a working audit log, a single insert followed by the sleep of
  half a second.
\<close>

theorem append_failure_swallowed_witness:
  "unreachable (Insert LOGS_TABLE (log_data ''123'' ''login'' True (PStr ''u1'') (PStr ''Alice'') PNone))
     = Inl (Exception ''timeout'')
   \<and> snd (log_authentication_event unreachable
        ''123'' ''login'' True (PStr ''u1'') (PStr ''Alice'') PNone) = Inr False
   \<and> (Inl (Exception ''timeout'') :: exc + row list) \<noteq> Inl KeyboardInterrupt
   \<and> (Inr [alice] :: exc + row list) \<noteq> Inl KeyboardInterrupt
   \<and> main_iteration utf8_console
        (card_tick 123 10 (with_insert (Inl (Exception ''timeout'')) (directory [alice]))) initial_state
      = main_iteration utf8_console
        (card_tick 123 10 (with_insert (Inr [alice]) (directory [alice]))) initial_state"
  using append_failure_swallowed
    [where sb = unreachable and eid = "''123''" and event_type = "''login''" and success = True
       and user_id = "PStr ''u1''" and user_name = "PStr ''Alice''" and message = PNone
       and m = "''timeout''"]
    append_failure_swallowed
    [where sb = "directory [alice]" and res = "Inl (Exception ''timeout'')" and res' = "Inr [alice]"
       and w = utf8_console and t = "card_tick 123 10 (directory [alice])" and st = initial_state]
  by (simp add: unreachable_def card_tick_def)

text \<open>
  C3. In any run of the loop, two accepted reads that follow one another and carry the
  same identifier are at least the cooldown (2 seconds) apart. A read whose identifier
  is the last accepted one and that arrives less than the cooldown after it is dropped:
  the pass issues no directory query, appends no event, prints nothing, only sleeps for
  a tenth of a second, and leaves the state as it was.
\<close>

theorem dedup_invariant:
  "scan_cooldown = 2
   \<and> dedup_ok (accepted_reads (fst (main_loop w ticks initial_state)))
   \<and> (read_rfid_card w (reader_read t) = Inr (Some (card_id, card_text))
        \<and> last_scanned_eid st = Some (strip card_id)
        \<and> time_now t - last_scan_time st < scan_cooldown \<longrightarrow>
      main_iteration w t st = ([((st, time_now t), Sleep 0.1)], Inr st))"
proof (intro conjI impI)
  show "scan_cooldown = 2" by (simp add: scan_cooldown_def)
next
  show "dedup_ok (accepted_reads (fst (main_loop w ticks initial_state)))"
    using main_loop_dedup [of initial_state w ticks]
    by (simp add: last_accepted_def initial_state_def)
next
  assume "read_rfid_card w (reader_read t) = Inr (Some (card_id, card_text))
        \<and> last_scanned_eid st = Some (strip card_id)
        \<and> time_now t - last_scan_time st < scan_cooldown"
  then show "main_iteration w t st = ([((st, time_now t), Sleep 0.1)], Inr st)"
    by (simp add: iter_rejected accepts_def)
qed

text \<open>
  C3, on scenarios C and E: the card \<open>123\<close> read at 10, 11 and 13 seconds. The read at 11
  is dropped with a sleep and nothing else; the reads at 10 and 13 are accepted.
\<close>

theorem dedup_invariant_witness:
  "accepted_reads (fst (main_loop utf8_console
       [card_tick 123 10 (directory [alice]), card_tick 123 11 (directory [alice]),
        card_tick 123 13 (directory [alice])] initial_state))
     = [(''123'', 10), (''123'', 13)]
   \<and> dedup_ok [(''123'', 10), (''123'', 13)]
   \<and> read_rfid_card utf8_console (reader_read (card_tick 123 11 (directory [alice])))
       = Inr (Some (''123'', []))
   \<and> last_scanned_eid \<lparr>last_scanned_eid = Some ''123'', last_scan_time = 10\<rparr> = Some (strip ''123'')
   \<and> time_now (card_tick 123 11 (directory [alice]))
         - last_scan_time \<lparr>last_scanned_eid = Some ''123'', last_scan_time = 10\<rparr> < scan_cooldown
   \<and> main_iteration utf8_console (card_tick 123 11 (directory [alice]))
         \<lparr>last_scanned_eid = Some ''123'', last_scan_time = 10\<rparr>
       = ([((\<lparr>last_scanned_eid = Some ''123'', last_scan_time = 10\<rparr>, 11), Sleep 0.1)],
          Inr \<lparr>last_scanned_eid = Some ''123'', last_scan_time = 10\<rparr>)"
proof -
  let ?D = "directory [alice]"
  let ?s1 = "\<lparr>last_scanned_eid = Some ''123'', last_scan_time = 10\<rparr>"
  have r: "read_rfid_card utf8_console (reader_read (card_tick 123 11 ?D)) = Inr (Some (''123'', []))"
    by (rule read_card_tick)
  have h: "last_scanned_eid ?s1 = Some (strip ''123'')"
    "time_now (card_tick 123 11 ?D) - last_scan_time ?s1 < scan_cooldown"
    by (simp_all add: strip_123 card_tick_def scan_cooldown_def)
  have i2: "main_iteration utf8_console (card_tick 123 11 ?D) ?s1
              = ([((?s1, 11), Sleep 0.1)], Inr ?s1)"
    using r h dedup_invariant [of utf8_console "[]" "card_tick 123 11 ?D" "''123''" "[]" ?s1]
    by (simp add: card_tick_def)
  have i1: "main_iteration utf8_console (card_tick 123 10 ?D) initial_state =
     ([((initial_state, 10), Remote (Select ''users'' ''eid'' ''123'')),
       ((initial_state, 10), Print (check_mark @ '' Alice scanned (EID: 123)'')),
       ((initial_state, 10), Remote (Insert ''authentication_logs''
          (login_event utf8_console ''123'' (PStr ''u1'') (PStr ''Alice'')))),
       ((?s1, 10), Sleep 0.5)], Inr ?s1)"
    by (rule iter_alice) (simp add: accepts_def initial_state_def)
  have i3: "main_iteration utf8_console (card_tick 123 13 ?D) ?s1 =
     ([((?s1, 13), Remote (Select ''users'' ''eid'' ''123'')),
       ((?s1, 13), Print (check_mark @ '' Alice scanned (EID: 123)'')),
       ((?s1, 13), Remote (Insert ''authentication_logs''
          (login_event utf8_console ''123'' (PStr ''u1'') (PStr ''Alice'')))),
       ((\<lparr>last_scanned_eid = Some ''123'', last_scan_time = 13\<rparr>, 13), Sleep 0.5)],
      Inr \<lparr>last_scanned_eid = Some ''123'', last_scan_time = 13\<rparr>)"
    by (rule iter_alice) (simp add: accepts_def scan_cooldown_def)
  have a: "accepted_reads (fst (main_loop utf8_console
       [card_tick 123 10 ?D, card_tick 123 11 ?D, card_tick 123 13 ?D] initial_state))
     = [(''123'', 10), (''123'', 13)]"
    by (simp add: i1 i2 i3)
  show ?thesis
    using a r h i2
      dedup_invariant [of utf8_console
        "[card_tick 123 10 ?D, card_tick 123 11 ?D, card_tick 123 13 ?D]"
        "card_tick 123 11 ?D" "''123''" "[]" ?s1]
    by simp
qed

text \<open>
  C6. A read whose stripped identifier differs from the last accepted one is always
  accepted, whatever the times are: the pass runs \<^verbatim>\<open>scan_and_log\<close> on it (directory
  query first), followed by the sleep of half a second when the scan returns, and the
  state then holds the new identifier and the time of the read.
\<close>

theorem different_card_accepted:
  assumes "read_rfid_card w (reader_read t) = Inr (Some (card_id, card_text))"
    and "last_scanned_eid st \<noteq> Some (strip card_id)"
  shows "map snd (fst (main_iteration w t st))
           = fst (scan_and_log w (supabase t) (strip card_id))
             @ (case snd (scan_and_log w (supabase t) (strip card_id)) of
                  None \<Rightarrow> [Sleep 0.5] | Some e \<Rightarrow> [])
         \<and> accepted_reads (fst (main_iteration w t st)) = [(strip card_id, time_now t)]
         \<and> (snd (scan_and_log w (supabase t) (strip card_id)) = None \<longrightarrow>
              snd (main_iteration w t st)
                = Inr \<lparr>last_scanned_eid = Some (strip card_id), last_scan_time = time_now t\<rparr>)"
proof -
  have "accepts st (strip card_id) (time_now t)"
    using assms(2) by (auto simp: accepts_def)
  with assms(1) show ?thesis
    by (simp add: iter_accepted accepted_reads_append accepted_reads_scan comp_def
        split: option.split)
qed

text \<open>
  C6, on scenario D: the card \<open>123\<close> accepted at 10 seconds, the card \<open>456\<close> read a tenth
  of a second later. The second read is queried and logged as well.
\<close>

theorem different_card_accepted_witness:
  "read_rfid_card utf8_console (reader_read (card_tick 456 10.1 (directory [alice])))
     = Inr (Some (''456'', []))
   \<and> last_scanned_eid \<lparr>last_scanned_eid = Some ''123'', last_scan_time = 10\<rparr> \<noteq> Some (strip ''456'')
   \<and> map snd (fst (main_iteration utf8_console (card_tick 456 10.1 (directory [alice]))
         \<lparr>last_scanned_eid = Some ''123'', last_scan_time = 10\<rparr>))
      = [Remote (Select ''users'' ''eid'' ''456''),
         Print (cross_mark @ '' No user found with EID: 456''),
         Remote (Insert ''authentication_logs'' (failed_event ''456'')),
         Sleep 0.5]
   \<and> snd (main_iteration utf8_console (card_tick 456 10.1 (directory [alice]))
         \<lparr>last_scanned_eid = Some ''123'', last_scan_time = 10\<rparr>)
      = Inr \<lparr>last_scanned_eid = Some ''456'', last_scan_time = 10.1\<rparr>"
proof -
  have r: "read_rfid_card utf8_console (reader_read (card_tick 456 10.1 (directory [alice])))
     = Inr (Some (''456'', []))"
    by (rule read_card_tick)
  have h: "last_scanned_eid \<lparr>last_scanned_eid = Some ''123'', last_scan_time = 10\<rparr> \<noteq> Some (strip ''456'')"
    by (simp add: strip_123)
  show ?thesis
    using r h different_card_accepted [OF r h]
    by (simp add: strip_123 card_tick_def scan_unknown)
qed

text \<open>
  C1 (as amended). For every accepted read the loop calls \<^verbatim>\<open>scan_and_log\<close> first and
  assigns \<^verbatim>\<open>last_scanned_eid\<close> and \<^verbatim>\<open>last_scan_time\<close> afterwards: the directory query
  opens the pass, every remote call of the pass is issued while the two variables still
  hold the previous identifier and time, and when the pass goes on to the next one the
  state holds the new identifier and time, first seen by the closing sleep.
\<close>

theorem state_updated_after_remote_calls:
  assumes "read_rfid_card w (reader_read t) = Inr (Some (card_id, card_text))"
    and "accepts st (strip card_id) (time_now t)"
  shows "hd (fst (main_iteration w t st))
           = ((st, time_now t), Remote (Select USERS_TABLE ''eid'' (strip card_id)))
         \<and> (\<forall>x \<in> set (fst (main_iteration w t st)). is_remote (snd x) \<longrightarrow> fst (fst x) = st)
         \<and> (\<forall>st'. snd (main_iteration w t st) = Inr st' \<longrightarrow>
               st' = \<lparr>last_scanned_eid = Some (strip card_id), last_scan_time = time_now t\<rparr>
               \<and> last (fst (main_iteration w t st)) = ((st', time_now t), Sleep 0.5))"
proof -
  obtain rest where
    rest: "fst (scan_and_log w (supabase t) (strip card_id))
             = Remote (Select USERS_TABLE ''eid'' (strip card_id)) # rest"
    using scan_trace_hd by blast
  note eq = iter_accepted [OF assms]
  have a: "hd (fst (main_iteration w t st))
           = ((st, time_now t), Remote (Select USERS_TABLE ''eid'' (strip card_id)))"
    by (simp add: eq rest)
  have b: "\<forall>x \<in> set (fst (main_iteration w t st)). is_remote (snd x) \<longrightarrow> fst (fst x) = st"
    by (auto simp: eq split: option.splits)
  have c: "\<forall>st'. snd (main_iteration w t st) = Inr st' \<longrightarrow>
               st' = \<lparr>last_scanned_eid = Some (strip card_id), last_scan_time = time_now t\<rparr>
               \<and> last (fst (main_iteration w t st)) = ((st', time_now t), Sleep 0.5)"
    by (auto simp: eq split: option.splits)
  from a b c show ?thesis by blast
qed

text \<open>
  C1, on scenario D: the card \<open>456\<close> read a tenth of a second after the card \<open>123\<close> was
  accepted.
\<close>

theorem state_updated_after_remote_calls_witness:
  "read_rfid_card utf8_console (reader_read (card_tick 456 10.1 (directory [alice])))
     = Inr (Some (''456'', []))
   \<and> accepts \<lparr>last_scanned_eid = Some ''123'', last_scan_time = 10\<rparr> (strip ''456'')
        (time_now (card_tick 456 10.1 (directory [alice])))
   \<and> hd (fst (main_iteration utf8_console (card_tick 456 10.1 (directory [alice]))
            \<lparr>last_scanned_eid = Some ''123'', last_scan_time = 10\<rparr>))
       = ((\<lparr>last_scanned_eid = Some ''123'', last_scan_time = 10\<rparr>, 10.1),
          Remote (Select USERS_TABLE ''eid'' ''456''))
   \<and> map (fst \<circ> fst) (filter (is_remote \<circ> snd)
         (fst (main_iteration utf8_console (card_tick 456 10.1 (directory [alice]))
            \<lparr>last_scanned_eid = Some ''123'', last_scan_time = 10\<rparr>)))
       = [\<lparr>last_scanned_eid = Some ''123'', last_scan_time = 10\<rparr>,
          \<lparr>last_scanned_eid = Some ''123'', last_scan_time = 10\<rparr>]
   \<and> snd (main_iteration utf8_console (card_tick 456 10.1 (directory [alice]))
            \<lparr>last_scanned_eid = Some ''123'', last_scan_time = 10\<rparr>)
       = Inr \<lparr>last_scanned_eid = Some ''456'', last_scan_time = 10.1\<rparr>
   \<and> last (fst (main_iteration utf8_console (card_tick 456 10.1 (directory [alice]))
            \<lparr>last_scanned_eid = Some ''123'', last_scan_time = 10\<rparr>))
       = ((\<lparr>last_scanned_eid = Some ''456'', last_scan_time = 10.1\<rparr>, 10.1), Sleep 0.5)"
proof -
  let ?t = "card_tick 456 10.1 (directory [alice])"
  let ?s = "\<lparr>last_scanned_eid = Some ''123'', last_scan_time = 10\<rparr>"
  have r: "read_rfid_card utf8_console (reader_read ?t) = Inr (Some (''456'', []))"
    by (rule read_card_tick)
  have h: "accepts ?s (strip ''456'') (time_now ?t)"
    by (simp add: accepts_def strip_123)
  have i: "snd (main_iteration utf8_console ?t ?s)
             = Inr \<lparr>last_scanned_eid = Some ''456'', last_scan_time = 10.1\<rparr>"
    using iter_unknown [of ?s "10.1"] by (simp add: accepts_def)
  have f: "map (fst \<circ> fst) (filter (is_remote \<circ> snd) (fst (main_iteration utf8_console ?t ?s)))
             = [?s, ?s]"
    using iter_unknown [of ?s "10.1"] by (simp add: accepts_def)
  show ?thesis
    using r h i f state_updated_after_remote_calls [OF r h]
    by (simp add: strip_123 card_tick_def)
qed

text \<open>
  C1 as stated fails: on scenario D the directory query for the accepted card \<open>456\<close> is
  issued while the state still holds the card \<open>123\<close> and its time; the state holds
  \<open>456\<close> only when the pass is over.
\<close>

theorem lookup_issued_under_previous_state:
  "fst (main_iteration utf8_console (card_tick 456 10.1 (directory [alice]))
          \<lparr>last_scanned_eid = Some ''123'', last_scan_time = 10\<rparr>) ! 0
     = ((\<lparr>last_scanned_eid = Some ''123'', last_scan_time = 10\<rparr>, 10.1),
        Remote (Select ''users'' ''eid'' ''456''))
   \<and> snd (main_iteration utf8_console (card_tick 456 10.1 (directory [alice]))
          \<lparr>last_scanned_eid = Some ''123'', last_scan_time = 10\<rparr>)
     = Inr \<lparr>last_scanned_eid = Some ''456'', last_scan_time = 10.1\<rparr>"
proof -
  have "accepts \<lparr>last_scanned_eid = Some ''123'', last_scan_time = 10\<rparr> ''456'' 10.1"
    by (simp add: accepts_def)
  then show ?thesis
    by (simp add: iter_unknown)
qed




text \<open>
  C4 (as amended). A fault of the reader, of the directory query or of the event append is
  caught inside \<^verbatim>\<open>read_rfid_card\<close>, \<^verbatim>\<open>scan_and_log\<close> and \<^verbatim>\<open>log_authentication_event\<close>:
  with a console that takes every line, a pass in which nothing raises
  \<^verbatim>\<open>KeyboardInterrupt\<close> always hands over to the next pass. A reader fault leaves no
  line behind (the pass only sleeps); a directory fault is printed by the handler of
  \<^verbatim>\<open>scan_and_log\<close>. The handlers of \<^verbatim>\<open>main\<close>
  sit outside the \<^verbatim>\<open>while\<close> loop: any exception that leaves a pass ends the loop at
  once, the remaining reads are never processed, and on every such exit the cleanup is
  the last thing \<^verbatim>\<open>main\<close> does when \<^verbatim>\<open>RASPBERRY_PI\<close> is set.
\<close>

theorem loop_exit_paths:
  "((\<forall>line. stdout w line = None) \<and> reader_read t \<noteq> Inl KeyboardInterrupt
      \<and> (\<forall>q. supabase t q \<noteq> Inl KeyboardInterrupt) \<longrightarrow>
      (\<exists>st'. snd (main_iteration w t st) = Inr st'))
   \<and> (snd (main_iteration w t st) = Inl e \<longrightarrow>
        main_loop w (t # ts) st = (fst (main_iteration w t st), Inl e))
   \<and> (stdout w header_line1 = None \<and> stdout w header_line2 = None
        \<and> snd (main_loop w ticks initial_state) = Inl e' \<and> RASPBERRY_PI w \<longrightarrow>
        last (fst (main w ticks)) = Cleanup \<and> (\<forall>st. snd (main w ticks) \<noteq> Running st))
   \<and> (reader_read t = Inl (Exception m) \<longrightarrow>
        main_iteration w t st = ([((st, time_now t), Sleep 0.1)], Inr st))
   \<and> (supabase t (Select USERS_TABLE ''eid'' eid) = Inl (Exception m) \<longrightarrow>
        fst (scan_and_log w (supabase t) eid)
          = [Remote (Select USERS_TABLE ''eid'' eid), Print (failed_line m)])"
proof (intro conjI impI)
  assume "reader_read t = Inl (Exception m)"
  then have "read_rfid_card w (reader_read t) = Inr None"
    by (simp add: read_rfid_card_def)
  then show "main_iteration w t st = ([((st, time_now t), Sleep 0.1)], Inr st)"
    by (rule iter_no_card)
next
  assume "supabase t (Select USERS_TABLE ''eid'' eid) = Inl (Exception m)"
  then show "fst (scan_and_log w (supabase t) eid)
          = [Remote (Select USERS_TABLE ''eid'' eid), Print (failed_line m)]"
    by (simp add: scan_query_raises)
next
  assume "(\<forall>line. stdout w line = None) \<and> reader_read t \<noteq> Inl KeyboardInterrupt
      \<and> (\<forall>q. supabase t q \<noteq> Inl KeyboardInterrupt)"
  then show "\<exists>st'. snd (main_iteration w t st) = Inr st'"
    by (intro iter_continues) simp_all
next
  assume "snd (main_iteration w t st) = Inl e"
  then have "main_iteration w t st = (fst (main_iteration w t st), Inl e)"
    by (cases "main_iteration w t st") simp
  then show "main_loop w (t # ts) st = (fst (main_iteration w t st), Inl e)"
    by (rule main_loop_stop)
next
  assume h: "stdout w header_line1 = None \<and> stdout w header_line2 = None
        \<and> snd (main_loop w ticks initial_state) = Inl e' \<and> RASPBERRY_PI w"
  then show "last (fst (main w ticks)) = Cleanup" using main_exit_cleanup by blast
  from h show "\<forall>st. snd (main w ticks) \<noteq> Running st" using main_exit_cleanup by blast
qed

text \<open>
  C4, at concrete inputs. With a console that takes every line, the pass in which the
  directory cannot be reached hands over to the next pass. With an ASCII-only console the
  same pass leaves the loop, and the cleanup closes the run.
\<close>

theorem loop_exit_paths_witness:
  "(\<forall>line. stdout utf8_console line = None)
   \<and> reader_read (card_tick 123 10 unreachable) \<noteq> Inl KeyboardInterrupt
   \<and> (\<forall>q. supabase (card_tick 123 10 unreachable) q \<noteq> Inl KeyboardInterrupt)
   \<and> (\<exists>st'. snd (main_iteration utf8_console (card_tick 123 10 unreachable) initial_state) = Inr st')
   \<and> stdout ascii_console header_line1 = None \<and> stdout ascii_console header_line2 = None
   \<and> snd (main_loop ascii_console [card_tick 123 10 unreachable] initial_state)
       = Inl (Exception ''UnicodeEncodeError'')
   \<and> RASPBERRY_PI ascii_console
   \<and> last (fst (main ascii_console [card_tick 123 10 unreachable])) = Cleanup"
proof -
  have a: "\<forall>line. stdout utf8_console line = None"
    "reader_read (card_tick 123 10 unreachable) \<noteq> Inl KeyboardInterrupt"
    "\<forall>q. supabase (card_tick 123 10 unreachable) q \<noteq> Inl KeyboardInterrupt"
    by (simp_all add: utf8_console_def card_tick_def unreachable_def)
  have b: "stdout ascii_console header_line1 = None" "stdout ascii_console header_line2 = None"
    "RASPBERRY_PI ascii_console"
    by (simp_all add: ascii_console_def utf8_console_def header_line1_def header_line2_def)
  have c: "snd (main_loop ascii_console [card_tick 123 10 unreachable] initial_state)
       = Inl (Exception ''UnicodeEncodeError'')"
    by (simp only: main_loop_ascii_unreachable snd_conv)
  show ?thesis
    using a b c
      loop_exit_paths [where w = utf8_console and t = "card_tick 123 10 unreachable"
        and st = initial_state]
      loop_exit_paths [where w = ascii_console and ticks = "[card_tick 123 10 unreachable]"
        and e' = "Exception ''UnicodeEncodeError''"]
    by blast
qed

text \<open>
  C4 as stated fails. On an ASCII-only console the directory cannot be reached when the
  card \<open>123\<close> is read: the handler of \<^verbatim>\<open>scan_and_log\<close> raises while printing its line,
  the exception leaves the pass, and the loop is over. The card \<open>456\<close> that is read ten
  seconds later is never processed, and \<^verbatim>\<open>main\<close> ends by raising.
\<close>

theorem failed_iteration_ends_loop:
  "main_loop ascii_console
     [card_tick 123 10 unreachable, card_tick 456 20 (directory [alice])] initial_state
     = ([((initial_state, 10), Remote (Select ''users'' ''eid'' ''123'')),
         ((initial_state, 10), Print (cross_mark @ '' Failed to scan: timeout''))],
        Inl (Exception ''UnicodeEncodeError''))
   \<and> main ascii_console [card_tick 123 10 unreachable, card_tick 456 20 (directory [alice])]
     = ([Print header_line1, Print header_line2,
         Remote (Select ''users'' ''eid'' ''123''),
         Print (cross_mark @ '' Failed to scan: timeout''),
         Print (error_line ''UnicodeEncodeError''),
         Cleanup],
        Raised (Exception ''UnicodeEncodeError''))"
proof -
  have b: "stdout ascii_console header_line1 = None"
    "stdout ascii_console header_line2 = None"
    "stdout ascii_console (error_line ''UnicodeEncodeError'')
       = Some (Exception ''UnicodeEncodeError'')"
    "RASPBERRY_PI ascii_console"
    by (simp_all add: ascii_console_def utf8_console_def cross_mark_def header_line1_def
        header_line2_def error_line_def)
  show ?thesis
    by (simp add: main_def main_loop_ascii_unreachable b main_finally_def
        del: main_loop.simps)
qed

end
